theory Spec2Isabelle
  imports Complex_Main "HOL-Library.Word"
begin

section \<open>Keystore decryption of the wallet (AppShell.js, second document)\<close>

text \<open>
  The wallet glue of \<^verbatim>\<open>neotracker-shared-web\<close> validates an encrypted keystore
  document (\<^verbatim>\<open>extractKeystore\<close>) and recovers the private key from it
  (\<^verbatim>\<open>getPrivateKey\<close>, which uses \<^verbatim>\<open>prependKey\<close> and
  \<^verbatim>\<open>decipherBuffer\<close>). The functions are embedded below as they are written:
  JavaScript values as a datatype, a thrown error as the left summand of a sum, the
  library calls (\<^verbatim>\<open>JSON.parse\<close>, scrypt-js, Node's \<^verbatim>\<open>crypto\<close>, js-sha3,
  \<^verbatim>\<open>privateKeyToAddress\<close> of the client SDK) as parameters.
\<close>

subsection \<open>JavaScript values\<close>

text \<open>
  The values \<^verbatim>\<open>JSON.parse\<close> can return, and \<^verbatim>\<open>undefined\<close>, which a property
  read returns for an absent property. A number carries the value of the double.
  An object is the list of its own properties; a string is the list of its code units
  (a \<^typ>\<open>char\<close> per unit, which covers the keystore format: addresses, hex strings
  and algorithm names are ASCII).
\<close>

datatype jsval =
    JUndefined
  | JNull
  | JBoolean bool
  | JNumber real
  | JString string
  | JArray "jsval list"
  | JObject "(string \<times> jsval) list"

type_synonym buffer = "8 word list"

text \<open>
  The errors a caller can observe. The first ten are the codes of \<^verbatim>\<open>CodedClientError\<close>
  that the two functions throw; \<^verbatim>\<open>TypeError\<close> is the error of the JavaScript engine
  for a property read on \<^verbatim>\<open>null\<close> or \<^verbatim>\<open>undefined\<close> outside a \<^verbatim>\<open>try\<close>;
  \<^verbatim>\<open>ExternalError\<close> is whatever \<^verbatim>\<open>privateKeyToAddress\<close> throws (no \<^verbatim>\<open>try\<close>
  surrounds that call either).
\<close>

datatype error =
    EXTRACT_KEYSTORE_INVALID_FILE
  | EXTRACT_KEYSTORE_INVALID_JSON
  | EXTRACT_KEYSTORE_INVALID_FORMAT
  | DECRYPT_KEYSTORE_DERIVED_KEY_ERROR
  | DECRYPT_KEYSTORE_UNSUPPORTED_PBKDF2_PARAMETERS
  | DECRYPT_KEYSTORE_UNSUPPORTED_ALGO
  | DECRYPT_KEYSTORE_UNKNOWN_CRYPTO_ERROR
  | DECRYPT_KEYSTORE_WRONG_PASSPHRASE
  | DECRYPT_KEYSTORE_DECIPHER_ERROR
  | DECRYPT_KEYSTORE_WRONG_ADDRESS
  | TypeError
  | ExternalError

text \<open>The operator \<^verbatim>\<open>typeof\<close>; note \<^verbatim>\<open>typeof null === 'object'\<close>.\<close>

fun typeof :: "jsval \<Rightarrow> string" where
  "typeof JUndefined = ''undefined''"
| "typeof JNull = ''object''"
| "typeof (JBoolean b) = ''boolean''"
| "typeof (JNumber x) = ''number''"
| "typeof (JString s) = ''string''"
| "typeof (JArray xs) = ''object''"
| "typeof (JObject ps) = ''object''"

text \<open>
  A property read \<^verbatim>\<open>v.k\<close>. On \<^verbatim>\<open>null\<close> and \<^verbatim>\<open>undefined\<close> the engine throws a
  \<^verbatim>\<open>TypeError\<close>. On an object the own property is returned, \<^verbatim>\<open>undefined\<close> when
  there is none. The source reads only the names \<^verbatim>\<open>version\<close>, \<^verbatim>\<open>id\<close>,
  \<^verbatim>\<open>address\<close>, \<^verbatim>\<open>crypto\<close>, \<^verbatim>\<open>ciphertext\<close>, \<^verbatim>\<open>cipherparams\<close>, \<^verbatim>\<open>iv\<close>,
  \<^verbatim>\<open>cipher\<close>, \<^verbatim>\<open>kdf\<close>, \<^verbatim>\<open>kdfparams\<close>, \<^verbatim>\<open>mac\<close>, \<^verbatim>\<open>dklen\<close>, \<^verbatim>\<open>salt\<close>,
  \<^verbatim>\<open>n\<close>, \<^verbatim>\<open>r\<close>, \<^verbatim>\<open>p\<close>, \<^verbatim>\<open>c\<close> and \<^verbatim>\<open>prf\<close> this way; none of them is an
  index, \<^verbatim>\<open>length\<close> or a member of a prototype, so on an array and on a primitive
  the read gives \<^verbatim>\<open>undefined\<close>.
\<close>

fun get :: "jsval \<Rightarrow> string \<Rightarrow> error + jsval" where
  "get JUndefined k = Inl TypeError"
| "get JNull k = Inl TypeError"
| "get (JObject ps) k = Inr (case map_of ps k of None \<Rightarrow> JUndefined | Some v \<Rightarrow> v)"
| "get v k = Inr JUndefined"

subsection \<open>prependKey\<close>

text \<open>
  \<^verbatim>\<open>
  const prependKey = (seedIn: Buffer) => {
    let seed = seedIn;
    while (seed.length < 32) {
      const nullBuff = Buffer.from([0x00]);
      seed = Buffer.concat([nullBuff, seed]);
    }
    return seed;
  };
  \<close>
\<close>

function prependKey :: "buffer \<Rightarrow> buffer" where
  "prependKey seed = (if length seed < 32 then prependKey ([0x00] @ seed) else seed)"
  by pat_completeness auto
termination
  by (relation "measure (\<lambda>seed. 32 - length seed)") auto

declare prependKey.simps [simp del]


subsection \<open>Buffers\<close>

text \<open>
  \<^verbatim>\<open>buf.slice(start, end)\<close> on a Buffer clamps both indices to the length, and
  \<^verbatim>\<open>buf.toString('hex')\<close> writes every byte as two lower-case hexadecimal digits.
\<close>

definition slice :: "nat \<Rightarrow> nat \<Rightarrow> buffer \<Rightarrow> buffer" where
  "slice start end' buf = take (end' - start) (drop start buf)"

definition hexDigit :: "nat \<Rightarrow> char" where
  "hexDigit d = ''0123456789abcdef'' ! d"

fun toHex :: "buffer \<Rightarrow> string" where
  "toHex [] = []"
| "toHex (b # bs) = hexDigit (unat b div 16) # hexDigit (unat b mod 16) # toHex bs"

subsection \<open>The schema check of extractKeystore\<close>

text \<open>
  An expression of the source either has a value or throws; \<^verbatim>\<open>a && b\<close> evaluates
  \<^verbatim>\<open>b\<close> only when \<^verbatim>\<open>a\<close> is true, and \<^verbatim>\<open>a || b\<close> only when \<^verbatim>\<open>a\<close> is false.
\<close>

definition and_then :: "error + 'a \<Rightarrow> ('a \<Rightarrow> error + 'b) \<Rightarrow> error + 'b" where
  "and_then m f = (case m of Inl e \<Rightarrow> Inl e | Inr v \<Rightarrow> f v)"

fun get_path :: "jsval \<Rightarrow> string list \<Rightarrow> error + jsval" where
  "get_path v [] = Inr v"
| "get_path v (k # ks) = and_then (get v k) (\<lambda>w. get_path w ks)"

fun js_and :: "(error + bool) list \<Rightarrow> error + bool" where
  "js_and [] = Inr True"
| "js_and (c # cs) = and_then c (\<lambda>b. if b then js_and cs else Inr False)"

definition js_or :: "error + bool \<Rightarrow> error + bool \<Rightarrow> error + bool" where
  "js_or a b = and_then a (\<lambda>x. if x then Inr True else b)"

text \<open>\<^verbatim>\<open>typeof e === t\<close> and \<^verbatim>\<open>e === v\<close> for an expression \<^verbatim>\<open>e\<close> that may throw.\<close>

definition typeof_is :: "error + jsval \<Rightarrow> string \<Rightarrow> error + bool" where
  "typeof_is e t = and_then e (\<lambda>v. Inr (typeof v = t))"

definition strict_eq :: "error + jsval \<Rightarrow> jsval \<Rightarrow> error + bool" where
  "strict_eq e v = and_then e (\<lambda>w. Inr (w = v))"

text \<open>\<^verbatim>\<open>v.length\<close>; the source reads it of a value it has just found to be a string.\<close>

fun js_length :: "jsval \<Rightarrow> error + jsval" where
  "js_length JUndefined = Inl TypeError"
| "js_length JNull = Inl TypeError"
| "js_length (JString s) = Inr (JNumber (real (length s)))"
| "js_length (JArray xs) = Inr (JNumber (real (length xs)))"
| "js_length (JObject ps) = Inr (case map_of ps ''length'' of None \<Rightarrow> JUndefined | Some v \<Rightarrow> v)"
| "js_length v = Inr JUndefined"

text \<open>
  \<^verbatim>\<open>
  const isValidKDFParams = (kdf: string, kdfparams: Object) =>
    typeof kdfparams.dklen === 'number' &&
    typeof kdfparams.salt === 'string' &&
    ((kdf === 'scrypt' &&
      typeof kdfparams.n === 'number' &&
      typeof kdfparams.r === 'number' &&
      typeof kdfparams.p === 'number') ||
      (kdf === 'pbkdf2' &&
        typeof kdfparams.c === 'number' &&
        typeof kdfparams.prf === 'string'));
  \<close>
\<close>

definition isValidKDFParams :: "jsval \<Rightarrow> jsval \<Rightarrow> error + bool" where
  "isValidKDFParams kdf kdfparams =
     js_and
      [typeof_is (get kdfparams ''dklen'') ''number'',
       typeof_is (get kdfparams ''salt'') ''string'',
       js_or
         (js_and
           [Inr (kdf = JString ''scrypt''),
            typeof_is (get kdfparams ''n'') ''number'',
            typeof_is (get kdfparams ''r'') ''number'',
            typeof_is (get kdfparams ''p'') ''number''])
         (js_and
           [Inr (kdf = JString ''pbkdf2''),
            typeof_is (get kdfparams ''c'') ''number'',
            typeof_is (get kdfparams ''prf'') ''string''])]"

text \<open>
  The condition under the negation in \<^verbatim>\<open>extractKeystore\<close> (lines 439 to 453 of the
  file as given), conjunct by conjunct. The two arguments of \<^verbatim>\<open>isValidKDFParams\<close> are
  read before the call.
\<close>

definition isKeystore :: "jsval \<Rightarrow> error + bool" where
  "isKeystore keystore =
     js_and
      [Inr (typeof keystore = ''object''),
       typeof_is (get keystore ''version'') ''number'',
       strict_eq (get keystore ''version'') (JNumber 3),
       typeof_is (get keystore ''id'') ''string'',
       typeof_is (get keystore ''address'') ''string'',
       strict_eq (and_then (get keystore ''address'') js_length) (JNumber 34),
       typeof_is (get keystore ''crypto'') ''object'',
       typeof_is (get_path keystore [''crypto'', ''ciphertext'']) ''string'',
       typeof_is (get_path keystore [''crypto'', ''cipherparams'']) ''object'',
       typeof_is (get_path keystore [''crypto'', ''cipherparams'', ''iv'']) ''string'',
       typeof_is (get_path keystore [''crypto'', ''cipher'']) ''string'',
       typeof_is (get_path keystore [''crypto'', ''kdf'']) ''string'',
       typeof_is (get_path keystore [''crypto'', ''kdfparams'']) ''object'',
       and_then (get_path keystore [''crypto'', ''kdf'']) (\<lambda>kdf.
         and_then (get_path keystore [''crypto'', ''kdfparams'']) (\<lambda>kdfparams.
           isValidKDFParams kdf kdfparams)),
       typeof_is (get_path keystore [''crypto'', ''mac'']) ''string'']"

text \<open>
  \<^verbatim>\<open>extractKeystore({ text })\<close>. \<^verbatim>\<open>JSON.parse\<close> is the engine's; it is the parameter
  \<open>JSON_parse\<close>, which gives \<open>None\<close> where \<^verbatim>\<open>JSON.parse\<close> throws. The first
  equation is the case \<^verbatim>\<open>typeof text === 'string'\<close>, the second every other input. An
  error thrown while the condition is evaluated is not caught by the source and leaves
  the function as it is.
\<close>

fun extractKeystore :: "(string \<Rightarrow> jsval option) \<Rightarrow> jsval \<Rightarrow> error + jsval" where
  "extractKeystore JSON_parse (JString text) =
     (case JSON_parse text of
        None \<Rightarrow> Inl EXTRACT_KEYSTORE_INVALID_JSON
      | Some keystore \<Rightarrow>
          and_then (isKeystore keystore) (\<lambda>ok.
            if \<not> ok then Inl EXTRACT_KEYSTORE_INVALID_FORMAT else Inr keystore))"
| "extractKeystore JSON_parse text = Inl EXTRACT_KEYSTORE_INVALID_FILE"

subsection \<open>The libraries getPrivateKey calls\<close>

text \<open>
  The cryptography is not code of this repository: \<^verbatim>\<open>scrypt\<close> (scrypt-js),
  \<^verbatim>\<open>crypto.pbkdf2\<close> and \<^verbatim>\<open>crypto.createDecipheriv\<close> (Node), \<^verbatim>\<open>sha3_256\<close>
  (js-sha3), \<^verbatim>\<open>privateKeyToAddress\<close> (the client SDK) and \<^verbatim>\<open>Buffer.from(s, 'hex')\<close>.
  They are taken as parameters; \<open>None\<close> stands for a thrown error or a rejected
  promise. \<^verbatim>\<open>sha3_256\<close> returns the digest as a hexadecimal string. A decipher
  object has the methods \<^verbatim>\<open>update\<close> and \<^verbatim>\<open>final\<close>; the second is given the data
  the first was called on, which is the state it depends on.
\<close>

record decipher =
  decipher_update :: "buffer \<Rightarrow> buffer option"
  decipher_final :: "buffer \<Rightarrow> buffer option"

record libs =
  scrypt :: "string \<Rightarrow> buffer \<Rightarrow> jsval \<Rightarrow> jsval \<Rightarrow> jsval \<Rightarrow> jsval \<Rightarrow> buffer option"
  pbkdf2 :: "string \<Rightarrow> buffer \<Rightarrow> jsval \<Rightarrow> jsval \<Rightarrow> buffer option"
  bufferFromHex :: "jsval \<Rightarrow> buffer option"
  sha3_256 :: "buffer \<Rightarrow> string"
  createDecipheriv :: "jsval \<Rightarrow> buffer \<Rightarrow> buffer \<Rightarrow> decipher option"
  privateKeyToAddress :: "string \<Rightarrow> string option"

text \<open>
  A call of a key-derivation function, of the hash, of the cipher or of the address
  encoding is recorded as an event, so that a run of \<^verbatim>\<open>getPrivateKey\<close> is a list of
  the calls it made together with its result.
\<close>

datatype event = Scrypt | Pbkdf2 | Sha3_256 | CreateDecipheriv | PrivateKeyToAddress

type_synonym 'a run = "event list \<times> (error + 'a)"

definition then_run :: "'a run \<Rightarrow> ('a \<Rightarrow> 'b run) \<Rightarrow> 'b run" where
  "then_run m f =
     (case m of
        (t, Inl e) \<Rightarrow> (t, Inl e)
      | (t, Inr v) \<Rightarrow> (case f v of (t', r) \<Rightarrow> (t @ t', r)))"

text \<open>\<^verbatim>\<open>try { ... } catch (error) { throw new CodedClientError(code, error) }\<close>\<close>

definition catch_as :: "error \<Rightarrow> error + 'a \<Rightarrow> error + 'a" where
  "catch_as code m = (case m of Inl e \<Rightarrow> Inl code | Inr v \<Rightarrow> Inr v)"

definition from_hex :: "libs \<Rightarrow> jsval \<Rightarrow> error + buffer" where
  "from_hex L v = (case bufferFromHex L v of None \<Rightarrow> Inl TypeError | Some b \<Rightarrow> Inr b)"

subsection \<open>getPrivateKey\<close>

text \<open>
  \<^verbatim>\<open>
  const decipherBuffer = (decipher, data) =>
    Buffer.concat([decipher.update(data), decipher.final()]);
  \<close>
\<close>

definition decipherBuffer :: "decipher \<Rightarrow> buffer \<Rightarrow> buffer option" where
  "decipherBuffer decipher data =
     (case decipher_update decipher data of
        None \<Rightarrow> None
      | Some a \<Rightarrow>
          (case decipher_final decipher data of
             None \<Rightarrow> None
           | Some b \<Rightarrow> Some (a @ b)))"

text \<open>
  The body of \<^verbatim>\<open>getPrivateKey\<close> is a sequence of four blocks; each is a definition
  here, in the order of the source.

  The first block (lines 279 to 339) reads \<^verbatim>\<open>keystore.crypto.kdfparams\<close> and derives
  the key by the algorithm \<^verbatim>\<open>keystore.crypto.kdf\<close> names. The arguments of the two
  library calls are evaluated inside the \<^verbatim>\<open>try\<close>, so an error there is a
  \<^verbatim>\<open>DECRYPT_KEYSTORE_DERIVED_KEY_ERROR\<close> too; the test of \<^verbatim>\<open>kdfparams.prf\<close> stands
  before the \<^verbatim>\<open>try\<close>.
\<close>

definition scryptKey :: "libs \<Rightarrow> jsval \<Rightarrow> string \<Rightarrow> buffer run" where
  "scryptKey L kdfparams password =
     (case and_then (get kdfparams ''salt'') (from_hex L) of
        Inl e \<Rightarrow> ([], Inl DECRYPT_KEYSTORE_DERIVED_KEY_ERROR)
      | Inr salt \<Rightarrow>
          (case (get kdfparams ''n'', get kdfparams ''r'', get kdfparams ''p'',
                 get kdfparams ''dklen'') of
             (Inr n, Inr r, Inr p, Inr dklen) \<Rightarrow>
               ([Scrypt],
                case scrypt L password salt n r p dklen of
                  None \<Rightarrow> Inl DECRYPT_KEYSTORE_DERIVED_KEY_ERROR
                | Some key \<Rightarrow> Inr key)
           | _ \<Rightarrow> ([], Inl DECRYPT_KEYSTORE_DERIVED_KEY_ERROR)))"

definition pbkdf2Key :: "libs \<Rightarrow> jsval \<Rightarrow> string \<Rightarrow> buffer run" where
  "pbkdf2Key L kdfparams password =
     (case and_then (get kdfparams ''salt'') (from_hex L) of
        Inl e \<Rightarrow> ([], Inl DECRYPT_KEYSTORE_DERIVED_KEY_ERROR)
      | Inr salt \<Rightarrow>
          (case (get kdfparams ''c'', get kdfparams ''dklen'') of
             (Inr c, Inr dklen) \<Rightarrow>
               ([Pbkdf2],
                case pbkdf2 L password salt c dklen of
                  None \<Rightarrow> Inl DECRYPT_KEYSTORE_DERIVED_KEY_ERROR
                | Some key \<Rightarrow> Inr key)
           | _ \<Rightarrow> ([], Inl DECRYPT_KEYSTORE_DERIVED_KEY_ERROR)))"

definition derivedKeyOf :: "libs \<Rightarrow> jsval \<Rightarrow> string \<Rightarrow> buffer run" where
  "derivedKeyOf L keystore password =
     (case get_path keystore [''crypto'', ''kdfparams''] of
        Inl e \<Rightarrow> ([], Inl e)
      | Inr kdfparams \<Rightarrow>
          (case get_path keystore [''crypto'', ''kdf''] of
             Inl e \<Rightarrow> ([], Inl e)
           | Inr kdf \<Rightarrow>
               if kdf = JString ''scrypt'' then scryptKey L kdfparams password
               else if kdf = JString ''pbkdf2'' then
                 (case get kdfparams ''prf'' of
                    Inl e \<Rightarrow> ([], Inl e)
                  | Inr prf \<Rightarrow>
                      if prf \<noteq> JString ''hmac-sha256''
                      then ([], Inl DECRYPT_KEYSTORE_UNSUPPORTED_PBKDF2_PARAMETERS)
                      else pbkdf2Key L kdfparams password)
               else ([], Inl DECRYPT_KEYSTORE_UNSUPPORTED_ALGO)))"

text \<open>
  The second block (lines 341 to 356): the ciphertext is decoded, the digest of
  \<^verbatim>\<open>derivedKey.slice(16, 32)\<close> followed by the ciphertext is taken, and the digest is
  compared with \<^verbatim>\<open>keystore.crypto.mac\<close> by \<^verbatim>\<open>!==\<close>. The digest is a string already,
  so \<^verbatim>\<open>mac.toString('hex')\<close> is the digest itself.
\<close>

definition macOf :: "libs \<Rightarrow> jsval \<Rightarrow> buffer \<Rightarrow> (buffer \<times> string) run" where
  "macOf L keystore derivedKey =
     (case catch_as DECRYPT_KEYSTORE_UNKNOWN_CRYPTO_ERROR
             (and_then (get_path keystore [''crypto'', ''ciphertext'']) (from_hex L)) of
        Inl e \<Rightarrow> ([], Inl e)
      | Inr ciphertext \<Rightarrow>
          ([Sha3_256], Inr (ciphertext, sha3_256 L (slice 16 32 derivedKey @ ciphertext))))"

definition checkMac :: "jsval \<Rightarrow> string \<Rightarrow> error + unit" where
  "checkMac keystore mac =
     and_then (get_path keystore [''crypto'', ''mac'']) (\<lambda>stored.
       if JString mac \<noteq> stored then Inl DECRYPT_KEYSTORE_WRONG_PASSPHRASE else Inr ())"

text \<open>
  The third block (lines 358 to 371), up to the result of \<^verbatim>\<open>decipherBuffer\<close>; the
  call of \<^verbatim>\<open>prependKey\<close> on that result, which cannot throw, follows in
  \<open>getPrivateKey\<close>.
\<close>

definition decipherOf :: "libs \<Rightarrow> jsval \<Rightarrow> buffer \<Rightarrow> buffer \<Rightarrow> buffer run" where
  "decipherOf L keystore derivedKey ciphertext =
     (case (get_path keystore [''crypto'', ''cipher''],
            and_then (get_path keystore [''crypto'', ''cipherparams'', ''iv'']) (from_hex L)) of
        (Inr cipher, Inr iv) \<Rightarrow>
          ([CreateDecipheriv],
           case createDecipheriv L cipher (slice 0 16 derivedKey) iv of
             None \<Rightarrow> Inl DECRYPT_KEYSTORE_DECIPHER_ERROR
           | Some decipher \<Rightarrow>
               (case decipherBuffer decipher ciphertext of
                  None \<Rightarrow> Inl DECRYPT_KEYSTORE_DECIPHER_ERROR
                | Some plaintext \<Rightarrow> Inr plaintext))
      | _ \<Rightarrow> ([], Inl DECRYPT_KEYSTORE_DECIPHER_ERROR))"

text \<open>The first three blocks in sequence: the run up to the deciphered plaintext.\<close>

definition deciphered :: "libs \<Rightarrow> jsval \<Rightarrow> string \<Rightarrow> buffer run" where
  "deciphered L keystore password =
     then_run (derivedKeyOf L keystore password) (\<lambda>derivedKey.
     then_run (macOf L keystore derivedKey) (\<lambda>(ciphertext, mac).
     then_run ([], checkMac keystore mac) (\<lambda>_.
       decipherOf L keystore derivedKey ciphertext)))"

text \<open>
  The fourth block (lines 373 to 380): the seed as a hexadecimal string is the private
  key; it is returned when \<^verbatim>\<open>privateKeyToAddress\<close> maps it to \<^verbatim>\<open>keystore.address\<close>.
\<close>

definition getPrivateKey :: "libs \<Rightarrow> jsval \<Rightarrow> string \<Rightarrow> string run" where
  "getPrivateKey L keystore password =
     then_run (deciphered L keystore password) (\<lambda>plaintext.
       let seed = prependKey plaintext;
           privateKey = toHex seed
       in ([PrivateKeyToAddress],
           case privateKeyToAddress L privateKey of
             None \<Rightarrow> Inl ExternalError
           | Some address \<Rightarrow>
               and_then (get keystore ''address'') (\<lambda>stored.
                 if JString address \<noteq> stored then Inl DECRYPT_KEYSTORE_WRONG_ADDRESS
                 else Inr privateKey)))"

subsection \<open>Sample documents\<close>

text \<open>
  Keystore documents as \<^verbatim>\<open>JSON.parse\<close> returns them, three of them with their
  text: one with \<^verbatim>\<open>scrypt\<close>, one with \<^verbatim>\<open>pbkdf2\<close> and a ciphertext of 33 bytes, one
  with \<^verbatim>\<open>pbkdf2\<close> and the pseudo-random function \<^verbatim>\<open>hmac-sha512\<close>, and one that
  names a key-derivation function the source does not know.
\<close>

definition kdfparams_scrypt :: jsval where
  "kdfparams_scrypt =
     JObject [(''dklen'', JNumber 32), (''salt'', JString ''ab''),
              (''n'', JNumber 16384), (''r'', JNumber 8), (''p'', JNumber 1)]"

definition keystore_scrypt :: jsval where
  "keystore_scrypt =
     JObject
      [(''version'', JNumber 3),
       (''id'', JString ''k1''),
       (''address'', JString ''A432100000000000000000000000000000''),
       (''crypto'', JObject
          [(''ciphertext'', JString ''1234''),
           (''cipherparams'', JObject [(''iv'', JString ''00'')]),
           (''cipher'', JString ''aes-128-ctr''),
           (''kdf'', JString ''scrypt''),
           (''kdfparams'', kdfparams_scrypt),
           (''mac'', JString ''0707'')])]"

definition text_scrypt :: string where
  \<open>text_scrypt = ''{"version":3,"id":"k1","address":"A432100000000000000000000000000000","crypto":{"ciphertext":"1234","cipherparams":{"iv":"00"},"cipher":"aes-128-ctr","kdf":"scrypt","kdfparams":{"dklen":32,"salt":"ab","n":16384,"r":8,"p":1},"mac":"0707"}}''\<close>

definition keystore_pbkdf2 :: jsval where
  "keystore_pbkdf2 =
     JObject
      [(''version'', JNumber 3),
       (''id'', JString ''k2''),
       (''address'', JString ''A111111111111111111111111111111111''),
       (''crypto'', JObject
          [(''ciphertext'',
            JString ''111111111111111111111111111111111111111111111111111111111111111111''),
           (''cipherparams'', JObject [(''iv'', JString ''00'')]),
           (''cipher'', JString ''aes-128-ctr''),
           (''kdf'', JString ''pbkdf2''),
           (''kdfparams'', JObject
              [(''dklen'', JNumber 32), (''salt'', JString ''ab''),
               (''c'', JNumber 262144), (''prf'', JString ''hmac-sha256'')]),
           (''mac'', JString ''0707'')])]"

definition text_pbkdf2 :: string where
  \<open>text_pbkdf2 = ''{"version":3,"id":"k2","address":"A111111111111111111111111111111111","crypto":{"ciphertext":"111111111111111111111111111111111111111111111111111111111111111111","cipherparams":{"iv":"00"},"cipher":"aes-128-ctr","kdf":"pbkdf2","kdfparams":{"dklen":32,"salt":"ab","c":262144,"prf":"hmac-sha256"},"mac":"0707"}}''\<close>

definition keystore_sha512 :: jsval where
  "keystore_sha512 =
     JObject
      [(''version'', JNumber 3),
       (''id'', JString ''k3''),
       (''address'', JString ''A432100000000000000000000000000000''),
       (''crypto'', JObject
          [(''ciphertext'', JString ''1234''),
           (''cipherparams'', JObject [(''iv'', JString ''00'')]),
           (''cipher'', JString ''aes-128-ctr''),
           (''kdf'', JString ''pbkdf2''),
           (''kdfparams'', JObject
              [(''dklen'', JNumber 32), (''salt'', JString ''ab''),
               (''c'', JNumber 262144), (''prf'', JString ''hmac-sha512'')]),
           (''mac'', JString ''0707'')])]"

definition text_sha512 :: string where
  \<open>text_sha512 = ''{"version":3,"id":"k3","address":"A432100000000000000000000000000000","crypto":{"ciphertext":"1234","cipherparams":{"iv":"00"},"cipher":"aes-128-ctr","kdf":"pbkdf2","kdfparams":{"dklen":32,"salt":"ab","c":262144,"prf":"hmac-sha512"},"mac":"0707"}}''\<close>

definition keystore_argon2 :: jsval where
  "keystore_argon2 =
     JObject
      [(''version'', JNumber 3),
       (''id'', JString ''k4''),
       (''address'', JString ''A432100000000000000000000000000000''),
       (''crypto'', JObject
          [(''ciphertext'', JString ''1234''),
           (''cipherparams'', JObject [(''iv'', JString ''00'')]),
           (''cipher'', JString ''aes-128-ctr''),
           (''kdf'', JString ''argon2''),
           (''kdfparams'', JObject [(''dklen'', JNumber 32), (''salt'', JString ''ab'')]),
           (''mac'', JString ''0707'')])]"

text \<open>A document as the first, with the address of another key.\<close>

definition keystore_other_address :: jsval where
  "keystore_other_address =
     JObject
      [(''version'', JNumber 3),
       (''id'', JString ''k6''),
       (''address'', JString ''A111111111111111111111111111111111''),
       (''crypto'', JObject
          [(''ciphertext'', JString ''1234''),
           (''cipherparams'', JObject [(''iv'', JString ''00'')]),
           (''cipher'', JString ''aes-128-ctr''),
           (''kdf'', JString ''scrypt''),
           (''kdfparams'', kdfparams_scrypt),
           (''mac'', JString ''0707'')])]"

text \<open>
  A document as the second, with the address of another key, and a document with
  \<^verbatim>\<open>scrypt\<close> whose \<^verbatim>\<open>dklen\<close> is 16, so that \<^verbatim>\<open>derivedKey.slice(16, 32)\<close> is
  empty; its \<^verbatim>\<open>mac\<close> is the digest of the ciphertext alone.
\<close>

definition keystore_pbkdf2_other_address :: jsval where
  "keystore_pbkdf2_other_address =
     JObject
      [(''version'', JNumber 3),
       (''id'', JString ''k8''),
       (''address'', JString ''A432100000000000000000000000000000''),
       (''crypto'', JObject
          [(''ciphertext'',
            JString ''111111111111111111111111111111111111111111111111111111111111111111''),
           (''cipherparams'', JObject [(''iv'', JString ''00'')]),
           (''cipher'', JString ''aes-128-ctr''),
           (''kdf'', JString ''pbkdf2''),
           (''kdfparams'', JObject
              [(''dklen'', JNumber 32), (''salt'', JString ''ab''),
               (''c'', JNumber 262144), (''prf'', JString ''hmac-sha256'')]),
           (''mac'', JString ''0707'')])]"

definition keystore_dklen16 :: jsval where
  "keystore_dklen16 =
     JObject
      [(''version'', JNumber 3),
       (''id'', JString ''k7''),
       (''address'', JString ''A10b000000000000000000000000000000''),
       (''crypto'', JObject
          [(''ciphertext'', JString ''1208''),
           (''cipherparams'', JObject [(''iv'', JString ''00'')]),
           (''cipher'', JString ''aes-128-cbc''),
           (''kdf'', JString ''scrypt''),
           (''kdfparams'', JObject
              [(''dklen'', JNumber 16), (''salt'', JString ''ab''),
               (''n'', JNumber 16384), (''r'', JNumber 8), (''p'', JNumber 1)]),
           (''mac'', JString ''1208'')])]"

definition text_dklen16 :: string where
  \<open>text_dklen16 = ''{"version":3,"id":"k7","address":"A10b000000000000000000000000000000","crypto":{"ciphertext":"1208","cipherparams":{"iv":"00"},"cipher":"aes-128-cbc","kdf":"scrypt","kdfparams":{"dklen":16,"salt":"ab","n":16384,"r":8,"p":1},"mac":"1208"}}''\<close>

text \<open>
  \<^verbatim>\<open>JSON.parse\<close> on the texts used below: the four documents that have a text, the text \<^verbatim>\<open>null\<close>,
  and the text of a document whose \<^verbatim>\<open>crypto\<close> is \<^verbatim>\<open>null\<close>. Of the other texts only
  \<^verbatim>\<open>{\<close> is used, which is not JSON.
\<close>

definition text_crypto_null :: string where
  \<open>text_crypto_null = ''{"version":3,"id":"k5","address":"A432100000000000000000000000000000","crypto":null}''\<close>

definition keystore_crypto_null :: jsval where
  "keystore_crypto_null =
     JObject
      [(''version'', JNumber 3),
       (''id'', JString ''k5''),
       (''address'', JString ''A432100000000000000000000000000000''),
       (''crypto'', JNull)]"

definition JSON_parse_sample :: "string \<Rightarrow> jsval option" where
  "JSON_parse_sample =
     map_of
      [(''null'', JNull),
       (text_scrypt, keystore_scrypt),
       (text_pbkdf2, keystore_pbkdf2),
       (text_sha512, keystore_sha512),
       (text_crypto_null, keystore_crypto_null),
       (text_dklen16, keystore_dklen16)]"

subsection \<open>A toy instance of the libraries\<close>

text \<open>
  The theorems below hold for every instance of the libraries. To run the functions
  on the sample documents an instance is needed; this one is small enough to compute
  with and is no cryptography: the derived key is 32 copies of the length of the
  password, the digest is the first two bytes in hexadecimal, the cipher is the
  identity, and the address is the letter A followed by the first 33 characters of the
  reversed key. Decoding hexadecimal stops at the first pair that is not two
  hexadecimal digits, as Node's \<^verbatim>\<open>Buffer.from(s, 'hex')\<close> does.
\<close>

definition hexValue :: "char \<Rightarrow> nat option" where
  "hexValue c =
     (if c \<in> set ''0123456789'' then Some (of_char c - 48)
      else if c \<in> set ''abcdef'' then Some (of_char c - 87)
      else if c \<in> set ''ABCDEF'' then Some (of_char c - 55)
      else None)"

fun hexDecode :: "string \<Rightarrow> buffer" where
  "hexDecode (a # b # rest) =
     (case (hexValue a, hexValue b) of
        (Some x, Some y) \<Rightarrow> of_nat (16 * x + y) # hexDecode rest
      | _ \<Rightarrow> [])"
| "hexDecode rest = []"

definition toy_key :: "string \<Rightarrow> buffer" where
  "toy_key password = replicate 32 (of_nat (length password))"

definition toy_decipher :: decipher where
  "toy_decipher = \<lparr>decipher_update = (\<lambda>data. Some data), decipher_final = (\<lambda>data. Some [])\<rparr>"

definition toy_libs :: libs where
  "toy_libs =
     \<lparr>scrypt = (\<lambda>password salt n r p dklen. Some (toy_key password)),
      pbkdf2 = (\<lambda>password salt c dklen. Some (toy_key password)),
      bufferFromHex = (\<lambda>v. case v of JString s \<Rightarrow> Some (hexDecode s) | _ \<Rightarrow> None),
      sha3_256 = (\<lambda>data. toHex (take 2 data)),
      createDecipheriv = (\<lambda>cipher key iv. Some toy_decipher),
      privateKeyToAddress = (\<lambda>privateKey. Some (CHR ''A'' # take 33 (rev privateKey)))\<rparr>"




definition toy_libs_strict :: libs where
  "toy_libs_strict =
     toy_libs
      \<lparr>privateKeyToAddress := (\<lambda>privateKey.
          if length privateKey = 64 then privateKeyToAddress toy_libs privateKey else None)\<rparr>"

section \<open>Properties\<close>

subsection \<open>Auxiliary facts\<close>

lemma and_then_Inl [simp]: "and_then (Inl e) f = Inl e"
  by (simp add: and_then_def)

lemma and_then_Inr [simp]: "and_then (Inr v) f = f v"
  by (simp add: and_then_def)

lemma and_then_eq_Inr: "and_then m f = Inr y \<longleftrightarrow> (\<exists>v. m = Inr v \<and> f v = Inr y)"
  by (cases m) simp_all

lemma and_then_eq_Inl: "and_then m f = Inl e \<longleftrightarrow> m = Inl e \<or> (\<exists>v. m = Inr v \<and> f v = Inl e)"
  by (cases m) simp_all

lemma get_Inl: "get v k = Inl e \<Longrightarrow> e = TypeError"
  by (cases v) simp_all

lemma get_total: "get v k = Inr x \<Longrightarrow> \<exists>y. get v k' = Inr y"
  by (cases v) simp_all

lemma get_path_Inl: "get_path v ks = Inl e \<Longrightarrow> e = TypeError"
  by (induction ks arbitrary: v) (auto simp: and_then_eq_Inl dest: get_Inl)

lemma js_and_True: "js_and cs = Inr True \<longleftrightarrow> (\<forall>c \<in> set cs. c = Inr True)"
  by (induction cs) (auto simp: and_then_eq_Inr)

lemma js_and_Inl: "js_and cs = Inl e \<Longrightarrow> Inl e \<in> set cs"
  by (induction cs) (auto simp: and_then_eq_Inl split: if_splits)

lemma js_or_True: "js_or a b = Inr True \<longleftrightarrow> a = Inr True \<or> (a = Inr False \<and> b = Inr True)"
  by (cases a) (auto simp: js_or_def)

lemma js_or_Inl: "js_or a b = Inl e \<longleftrightarrow> a = Inl e \<or> (a = Inr False \<and> b = Inl e)"
  by (cases a) (auto simp: js_or_def)

lemma typeof_is_True: "typeof_is e t = Inr True \<longleftrightarrow> (\<exists>v. e = Inr v \<and> typeof v = t)"
  by (cases e) (simp_all add: typeof_is_def)

lemma typeof_is_Inl: "typeof_is e t = Inl err \<longleftrightarrow> e = Inl err"
  by (cases e) (simp_all add: typeof_is_def)

lemma strict_eq_True: "strict_eq e v = Inr True \<longleftrightarrow> e = Inr v"
  by (cases e) (simp_all add: strict_eq_def)

lemma strict_eq_Inl: "strict_eq e v = Inl err \<longleftrightarrow> e = Inl err"
  by (cases e) (simp_all add: strict_eq_def)


lemma extractKeystore_Inr:
  "extractKeystore JSON_parse text = Inr keystore \<longleftrightarrow>
     (\<exists>s. text = JString s \<and> JSON_parse s = Some keystore \<and> isKeystore keystore = Inr True)"
  by (cases "text") (auto simp: and_then_eq_Inr split: option.splits if_splits)

lemma isValidKDFParams_kdf:
  assumes "isValidKDFParams kdf kdfparams = Inr True"
  shows "kdf = JString ''scrypt'' \<or> kdf = JString ''pbkdf2''"
  using assms by (auto simp: isValidKDFParams_def js_and_True js_or_True simp del: js_and.simps)

lemma isKeystore_kdf:
  assumes "isKeystore keystore = Inr True"
  shows "get_path keystore [''crypto'', ''kdf''] = Inr (JString ''scrypt'')
       \<or> get_path keystore [''crypto'', ''kdf''] = Inr (JString ''pbkdf2'')"
proof -
  from assms have "and_then (get_path keystore [''crypto'', ''kdf'']) (\<lambda>kdf.
         and_then (get_path keystore [''crypto'', ''kdfparams'']) (\<lambda>kdfparams.
           isValidKDFParams kdf kdfparams)) = Inr True"
    by (simp add: isKeystore_def js_and_True del: js_and.simps get_path.simps)
  then obtain kdf kdfparams where "get_path keystore [''crypto'', ''kdf''] = Inr kdf"
    and "isValidKDFParams kdf kdfparams = Inr True"
    by (auto simp: and_then_eq_Inr)
  then show ?thesis
    using isValidKDFParams_kdf by auto
qed



lemma then_run_Inl [simp]: "then_run (t, Inl e) f = (t, Inl e)"
  by (simp add: then_run_def)

lemma then_run_Inr [simp]: "then_run (t, Inr v) f = (t @ fst (f v), snd (f v))"
  by (simp add: then_run_def split: prod.splits)

lemma then_run_snd_Inl:
  "snd (then_run m f) = Inl e \<longleftrightarrow> snd m = Inl e \<or> (\<exists>v. snd m = Inr v \<and> snd (f v) = Inl e)"
  by (cases m; cases "snd m") auto

lemma then_run_snd_Inr:
  "snd (then_run m f) = Inr y \<longleftrightarrow> (\<exists>v. snd m = Inr v \<and> snd (f v) = Inr y)"
  by (cases m; cases "snd m") auto

lemma scryptKey_Inl: "snd (scryptKey L kdfparams password) = Inl e \<Longrightarrow> e = DECRYPT_KEYSTORE_DERIVED_KEY_ERROR"
  by (auto simp: scryptKey_def split: sum.splits option.splits)

lemma pbkdf2Key_Inl: "snd (pbkdf2Key L kdfparams password) = Inl e \<Longrightarrow> e = DECRYPT_KEYSTORE_DERIVED_KEY_ERROR"
  by (auto simp: pbkdf2Key_def split: sum.splits option.splits)




lemma derivedKeyOf_unsupported:
  assumes "snd (derivedKeyOf L keystore password) = Inl DECRYPT_KEYSTORE_UNSUPPORTED_ALGO"
  shows "\<exists>kdf. get_path keystore [''crypto'', ''kdf''] = Inr kdf
           \<and> kdf \<noteq> JString ''scrypt'' \<and> kdf \<noteq> JString ''pbkdf2''"
  using assms
  by (auto simp: derivedKeyOf_def simp del: get_path.simps split: sum.splits if_splits
      dest: get_path_Inl get_Inl scryptKey_Inl pbkdf2Key_Inl)

lemma macOf_Inl: "snd (macOf L keystore derivedKey) = Inl e \<Longrightarrow> e = DECRYPT_KEYSTORE_UNKNOWN_CRYPTO_ERROR"
  by (auto simp: macOf_def catch_as_def simp del: get_path.simps split: sum.splits)

lemma checkMac_Inl:
  "checkMac keystore mac = Inl e \<Longrightarrow> e = DECRYPT_KEYSTORE_WRONG_PASSPHRASE \<or> e = TypeError"
  by (auto simp: checkMac_def and_then_eq_Inl simp del: get_path.simps split: if_splits dest: get_path_Inl)

lemma decipherOf_Inl:
  "snd (decipherOf L keystore derivedKey ciphertext) = Inl e \<Longrightarrow> e = DECRYPT_KEYSTORE_DECIPHER_ERROR"
  by (auto simp: decipherOf_def simp del: get_path.simps split: sum.splits option.splits)

lemma deciphered_unsupported:
  assumes "snd (deciphered L keystore password) = Inl DECRYPT_KEYSTORE_UNSUPPORTED_ALGO"
  shows "snd (derivedKeyOf L keystore password) = Inl DECRYPT_KEYSTORE_UNSUPPORTED_ALGO"
  using assms
  by (auto simp: deciphered_def then_run_snd_Inl split: prod.splits
      dest: macOf_Inl checkMac_Inl decipherOf_Inl)

lemma getPrivateKey_unsupported:
  assumes "snd (getPrivateKey L keystore password) = Inl DECRYPT_KEYSTORE_UNSUPPORTED_ALGO"
  shows "snd (derivedKeyOf L keystore password) = Inl DECRYPT_KEYSTORE_UNSUPPORTED_ALGO"
  using assms
  by (auto simp: getPrivateKey_def then_run_snd_Inl Let_def and_then_eq_Inl
      split: option.splits if_splits dest: deciphered_unsupported get_Inl)


subsection \<open>The left pad\<close>

lemma prependKey_replicate:
  "prependKey seed = replicate (32 - length seed) 0 @ seed"
proof (induction seed rule: prependKey.induct)
  case (1 seed)
  show ?case
  proof (cases "length seed < 32")
    case True
    then have "prependKey seed = prependKey ([0] @ seed)"
      by (subst prependKey.simps) simp
    also have "\<dots> = replicate (32 - length ([0::8 word] @ seed)) 0 @ [0] @ seed"
      using "1.IH" [OF True] by simp
    also have "\<dots> = replicate (Suc (32 - Suc (length seed))) 0 @ seed"
      by (simp add: replicate_app_Cons_same)
    also have "Suc (32 - Suc (length seed)) = 32 - length seed"
      using True by simp
    finally show ?thesis .
  next
    case False
    then show ?thesis
      by (subst prependKey.simps) simp
  qed
qed

text \<open>
  C5. A seed shorter than 32 bytes is left-padded to exactly 32 bytes; the seed is the
  suffix of the result, and the prefix before it consists of zero bytes only.
\<close>

theorem prependKey_pads_short_seed:
  assumes "length seed < 32"
  shows "length (prependKey seed) = 32
    \<and> drop (32 - length seed) (prependKey seed) = seed
    \<and> take (32 - length seed) (prependKey seed) = replicate (32 - length seed) 0"
  using assms by (simp add: prependKey_replicate)

theorem prependKey_pads_short_seed_witness:
  "length [0x12, 0x34 :: 8 word] < 32
    \<and> length (prependKey [0x12, 0x34]) = 32
    \<and> drop 30 (prependKey [0x12, 0x34]) = [0x12, 0x34]
    \<and> take 30 (prependKey [0x12, 0x34]) = replicate 30 0"
  using prependKey_pads_short_seed [of "[0x12, 0x34]"] by simp

subsection \<open>extractKeystore: the input and the parse\<close>

text \<open>
  C6. An input that is not a string fails with \<^verbatim>\<open>EXTRACT_KEYSTORE_INVALID_FILE\<close>
  (InvalidFile), and a string that \<^verbatim>\<open>JSON.parse\<close> rejects fails with
  \<^verbatim>\<open>EXTRACT_KEYSTORE_INVALID_JSON\<close> (InvalidJSON). Both hold whatever the schema check
  would say: the type is tested first, the parse second, the schema last.
\<close>

theorem extractKeystore_input_errors:
  "(typeof input \<noteq> ''string'' \<longrightarrow>
      extractKeystore JSON_parse input = Inl EXTRACT_KEYSTORE_INVALID_FILE)
   \<and> (JSON_parse s = None \<longrightarrow>
      extractKeystore JSON_parse (JString s) = Inl EXTRACT_KEYSTORE_INVALID_JSON)"
  by (cases input) simp_all

theorem extractKeystore_input_errors_witness:
  "typeof (JNumber 5) \<noteq> ''string''
   \<and> extractKeystore JSON_parse_sample (JNumber 5) = Inl EXTRACT_KEYSTORE_INVALID_FILE
   \<and> JSON_parse_sample ''{'' = None
   \<and> extractKeystore JSON_parse_sample (JString ''{'') = Inl EXTRACT_KEYSTORE_INVALID_JSON"
proof -
  have a: "typeof (JNumber 5) \<noteq> ''string''"
    by simp
  have b: "JSON_parse_sample ''{'' = None"
    by (simp add: JSON_parse_sample_def text_scrypt_def text_pbkdf2_def text_sha512_def
        text_crypto_null_def text_dklen16_def)
  from a b extractKeystore_input_errors [of "JNumber 5" JSON_parse_sample "''{''"]
  show ?thesis by blast
qed

subsection \<open>The key-derivation function of an accepted keystore\<close>

text \<open>
  C9. A keystore that \<^verbatim>\<open>extractKeystore\<close> returns has \<^verbatim>\<open>crypto.kdf\<close> equal to
  \<^verbatim>\<open>scrypt\<close> or to \<^verbatim>\<open>pbkdf2\<close>, and \<^verbatim>\<open>getPrivateKey\<close> on it never fails with
  \<^verbatim>\<open>DECRYPT_KEYSTORE_UNSUPPORTED_ALGO\<close> (UnsupportedAlgorithm), whatever the password
  and the libraries.
\<close>

theorem accepted_keystore_kdf_supported:
  assumes "extractKeystore JSON_parse input = Inr keystore"
  shows "(get_path keystore [''crypto'', ''kdf''] = Inr (JString ''scrypt'')
          \<or> get_path keystore [''crypto'', ''kdf''] = Inr (JString ''pbkdf2''))
       \<and> snd (getPrivateKey L keystore password) \<noteq> Inl DECRYPT_KEYSTORE_UNSUPPORTED_ALGO"
proof -
  from assms have ok: "isKeystore keystore = Inr True"
    by (auto simp: extractKeystore_Inr)
  then have kdf: "get_path keystore [''crypto'', ''kdf''] = Inr (JString ''scrypt'')
          \<or> get_path keystore [''crypto'', ''kdf''] = Inr (JString ''pbkdf2'')"
    by (rule isKeystore_kdf)
  have "snd (getPrivateKey L keystore password) \<noteq> Inl DECRYPT_KEYSTORE_UNSUPPORTED_ALGO"
  proof
    assume "snd (getPrivateKey L keystore password) = Inl DECRYPT_KEYSTORE_UNSUPPORTED_ALGO"
    then have "snd (derivedKeyOf L keystore password) = Inl DECRYPT_KEYSTORE_UNSUPPORTED_ALGO"
      by (rule getPrivateKey_unsupported)
    then obtain k where "get_path keystore [''crypto'', ''kdf''] = Inr k"
      and "k \<noteq> JString ''scrypt''" and "k \<noteq> JString ''pbkdf2''"
      using derivedKeyOf_unsupported by blast
    with kdf show False by auto
  qed
  with kdf show ?thesis by blast
qed

subsection \<open>The sample documents under extractKeystore\<close>

lemmas sample_texts = text_scrypt_def text_pbkdf2_def text_sha512_def text_crypto_null_def
  text_dklen16_def

lemmas schema_defs = isKeystore_def isValidKDFParams_def typeof_is_def strict_eq_def js_or_def

lemma accepted_pbkdf2:
  "extractKeystore JSON_parse_sample (JString text_pbkdf2) = Inr keystore_pbkdf2"
  by (simp add: JSON_parse_sample_def sample_texts keystore_pbkdf2_def schema_defs)

lemma accepted_sha512:
  "extractKeystore JSON_parse_sample (JString text_sha512) = Inr keystore_sha512"
  by (simp add: JSON_parse_sample_def sample_texts keystore_sha512_def schema_defs)

theorem accepted_keystore_kdf_supported_witness:
  "extractKeystore JSON_parse_sample (JString text_pbkdf2) = Inr keystore_pbkdf2
   \<and> get_path keystore_pbkdf2 [''crypto'', ''kdf''] = Inr (JString ''pbkdf2'')
   \<and> snd (getPrivateKey toy_libs keystore_pbkdf2 ''test123'') \<noteq> Inl DECRYPT_KEYSTORE_UNSUPPORTED_ALGO"
proof -
  have "get_path keystore_pbkdf2 [''crypto'', ''kdf''] = Inr (JString ''pbkdf2'')"
    by (simp add: keystore_pbkdf2_def)
  with accepted_pbkdf2
    accepted_keystore_kdf_supported [OF accepted_pbkdf2, of toy_libs "''test123''"]
  show ?thesis by blast
qed

subsection \<open>An unknown key-derivation function\<close>

text \<open>
  C7. When \<^verbatim>\<open>keystore.crypto.kdf\<close> is neither \<^verbatim>\<open>scrypt\<close> nor \<^verbatim>\<open>pbkdf2\<close>,
  \<^verbatim>\<open>getPrivateKey\<close> fails with \<^verbatim>\<open>DECRYPT_KEYSTORE_UNSUPPORTED_ALGO\<close>
  (UnsupportedAlgorithm) and has called no library: no key derivation, no digest, no
  decipher, no address encoding.
\<close>

theorem unsupported_kdf_fails_without_calls:
  assumes "get_path keystore [''crypto'', ''kdf''] = Inr kdf"
    and "kdf \<noteq> JString ''scrypt''" and "kdf \<noteq> JString ''pbkdf2''"
  shows "getPrivateKey L keystore password = ([], Inl DECRYPT_KEYSTORE_UNSUPPORTED_ALGO)"
proof -
  from assms(1) obtain crypto where c: "get keystore ''crypto'' = Inr crypto"
    and k: "get crypto ''kdf'' = Inr kdf"
    by (auto simp: and_then_eq_Inr)
  from get_total [OF k] obtain kdfparams where "get crypto ''kdfparams'' = Inr kdfparams"
    by blast
  with c k assms(2,3) have "derivedKeyOf L keystore password = ([], Inl DECRYPT_KEYSTORE_UNSUPPORTED_ALGO)"
    by (simp add: derivedKeyOf_def)
  then show ?thesis
    by (simp add: getPrivateKey_def deciphered_def)
qed

theorem unsupported_kdf_fails_without_calls_witness:
  "get_path keystore_argon2 [''crypto'', ''kdf''] = Inr (JString ''argon2'')
   \<and> JString ''argon2'' \<noteq> JString ''scrypt'' \<and> JString ''argon2'' \<noteq> JString ''pbkdf2''
   \<and> getPrivateKey toy_libs keystore_argon2 ''test123'' = ([], Inl DECRYPT_KEYSTORE_UNSUPPORTED_ALGO)"
proof -
  have a: "get_path keystore_argon2 [''crypto'', ''kdf''] = Inr (JString ''argon2'')"
    by (simp add: keystore_argon2_def)
  have b: "JString ''argon2'' \<noteq> JString ''scrypt''" and c: "JString ''argon2'' \<noteq> JString ''pbkdf2''"
    by simp_all
  from a b c unsupported_kdf_fails_without_calls [OF a b c, of toy_libs "''test123''"]
  show ?thesis by blast
qed

subsection \<open>The errors of extractKeystore\<close>

lemma js_length_Inl: "js_length v = Inl e \<Longrightarrow> e = TypeError"
  by (cases v) simp_all

lemma and_then_Inr_id [simp]: "and_then m Inr = m"
  by (cases m) simp_all

lemma js_and_TypeError:
  assumes "\<forall>c \<in> set cs. \<forall>e. c = Inl e \<longrightarrow> e = TypeError" and "js_and cs = Inl e"
  shows "e = TypeError"
  using js_and_Inl [OF assms(2)] assms(1) by blast

lemma js_or_TypeError:
  assumes "\<forall>e. a = Inl e \<longrightarrow> e = TypeError" and "\<forall>e. b = Inl e \<longrightarrow> e = TypeError"
    and "js_or a b = Inl e"
  shows "e = TypeError"
  using assms by (auto simp: js_or_Inl)

lemma typeof_is_get_TypeError: "typeof_is (get v k) t = Inl e \<Longrightarrow> e = TypeError"
  by (auto simp: typeof_is_Inl dest: get_Inl)

lemma typeof_is_get_path_TypeError: "typeof_is (get_path v ks) t = Inl e \<Longrightarrow> e = TypeError"
  by (auto simp: typeof_is_Inl dest: get_path_Inl)

lemma isValidKDFParams_Inl:
  assumes "isValidKDFParams kdf kdfparams = Inl e"
  shows "e = TypeError"
proof -
  have s: "\<forall>e. js_and
           [Inr (kdf = JString ''scrypt''),
            typeof_is (get kdfparams ''n'') ''number'',
            typeof_is (get kdfparams ''r'') ''number'',
            typeof_is (get kdfparams ''p'') ''number''] = Inl e \<longrightarrow> e = TypeError"
    by (intro allI impI, erule js_and_TypeError [rotated])
      (auto dest: typeof_is_get_TypeError)
  have p: "\<forall>e. js_and
           [Inr (kdf = JString ''pbkdf2''),
            typeof_is (get kdfparams ''c'') ''number'',
            typeof_is (get kdfparams ''prf'') ''string''] = Inl e \<longrightarrow> e = TypeError"
    by (intro allI impI, erule js_and_TypeError [rotated])
      (auto dest: typeof_is_get_TypeError)
  from assms [unfolded isValidKDFParams_def] show ?thesis
    by (rule js_and_TypeError [rotated])
      (use s p in \<open>auto dest: typeof_is_get_TypeError js_or_TypeError [rotated 2]\<close>)
qed

lemma isKeystore_Inl:
  assumes "isKeystore keystore = Inl e"
  shows "e = TypeError"
  using assms [unfolded isKeystore_def]
  by (rule js_and_TypeError [rotated])
    (auto simp: strict_eq_Inl and_then_eq_Inl simp del: get_path.simps
      dest: typeof_is_get_TypeError typeof_is_get_path_TypeError get_Inl get_path_Inl
        js_length_Inl isValidKDFParams_Inl)

lemma extractKeystore_Inl:
  assumes "extractKeystore JSON_parse input = Inl e"
  shows "e \<in> {EXTRACT_KEYSTORE_INVALID_FILE, EXTRACT_KEYSTORE_INVALID_JSON,
               EXTRACT_KEYSTORE_INVALID_FORMAT, TypeError}"
proof (cases input)
  case (JString s)
  show ?thesis
  proof (cases "JSON_parse s")
    case None
    with JString assms show ?thesis by simp
  next
    case (Some keystore)
    with JString assms have "isKeystore keystore = Inl e \<or> e = EXTRACT_KEYSTORE_INVALID_FORMAT"
      by (auto simp: and_then_eq_Inl split: if_splits)
    then show ?thesis
      by (auto dest: isKeystore_Inl)
  qed
qed (use assms in simp_all)

lemma isValidKDFParams_reads:
  assumes "isValidKDFParams kdf kdfparams = Inr True"
  shows "\<exists>y. get kdfparams k = Inr y"
proof -
  from assms have "typeof_is (get kdfparams ''dklen'') ''number'' = Inr True"
    by (simp add: isValidKDFParams_def js_and_True del: js_and.simps)
  then obtain d where "get kdfparams ''dklen'' = Inr d"
    by (auto simp: typeof_is_True)
  then show ?thesis
    by (rule get_total)
qed

lemma isKeystore_crypto:
  assumes "isKeystore keystore = Inr True"
  shows "\<exists>crypto kdfparams kdf. get keystore ''crypto'' = Inr crypto
           \<and> get crypto ''kdfparams'' = Inr kdfparams \<and> get crypto ''kdf'' = Inr kdf
           \<and> isValidKDFParams kdf kdfparams = Inr True"
proof -
  from assms have "and_then (get_path keystore [''crypto'', ''kdf'']) (\<lambda>kdf.
         and_then (get_path keystore [''crypto'', ''kdfparams'']) (\<lambda>kdfparams.
           isValidKDFParams kdf kdfparams)) = Inr True"
    by (simp add: isKeystore_def js_and_True del: js_and.simps get_path.simps)
  then show ?thesis
    by (auto simp: and_then_eq_Inr)
qed

subsection \<open>The pseudo-random function of pbkdf2\<close>

lemma get_defined_object:
  assumes "get v k = Inr w" and "w \<noteq> JUndefined"
  shows "typeof v = ''object''"
  using assms by (cases v) auto

lemma isKeystore_pbkdf2I:
  assumes "get keystore ''version'' = Inr (JNumber 3)"
    and "get keystore ''id'' = Inr (JString i)"
    and "get keystore ''address'' = Inr (JString a)" and "length a = 34"
    and "get keystore ''crypto'' = Inr crypto"
    and "get crypto ''ciphertext'' = Inr (JString ct)"
    and "get crypto ''cipherparams'' = Inr cipherparams"
    and "get cipherparams ''iv'' = Inr (JString iv)"
    and "get crypto ''cipher'' = Inr (JString ci)"
    and "get crypto ''kdf'' = Inr (JString ''pbkdf2'')"
    and "get crypto ''kdfparams'' = Inr kdfparams"
    and "get kdfparams ''dklen'' = Inr (JNumber d)"
    and "get kdfparams ''salt'' = Inr (JString sa)"
    and "get kdfparams ''c'' = Inr (JNumber c)"
    and "get kdfparams ''prf'' = Inr (JString f)"
    and "get crypto ''mac'' = Inr (JString m)"
  shows "isKeystore keystore = Inr True"
proof -
  have "typeof keystore = ''object''"
    using assms(1) by (rule get_defined_object) simp
  moreover have "typeof crypto = ''object''"
    using assms(6) by (rule get_defined_object) simp
  moreover have "typeof cipherparams = ''object''"
    using assms(8) by (rule get_defined_object) simp
  moreover have "typeof kdfparams = ''object''"
    using assms(12) by (rule get_defined_object) simp
  ultimately show ?thesis
    using assms
    by (simp add: isKeystore_def isValidKDFParams_def typeof_is_def strict_eq_def js_or_def)
qed

text \<open>
  C3, as amended. A document with \<^verbatim>\<open>kdf\<close> equal to \<^verbatim>\<open>pbkdf2\<close> that has every
  field of the schema with its type, and a \<^verbatim>\<open>prf\<close> that is any string other than
  \<^verbatim>\<open>hmac-sha256\<close>, is accepted by \<^verbatim>\<open>extractKeystore\<close>, which tests only that
  \<^verbatim>\<open>prf\<close> is a string and never fails with
  \<^verbatim>\<open>DECRYPT_KEYSTORE_UNSUPPORTED_PBKDF2_PARAMETERS\<close> (UnsupportedPBKDF2Parameters); the
  error is that of \<^verbatim>\<open>getPrivateKey\<close>, before any library is called, for this document
  and for every accepted keystore with \<^verbatim>\<open>pbkdf2\<close> and another \<^verbatim>\<open>prf\<close>.
\<close>

theorem unsupported_prf_fails_at_derivation:
  "(JSON_parse s = Some keystore
      \<and> get keystore ''version'' = Inr (JNumber 3)
      \<and> get keystore ''id'' = Inr (JString i)
      \<and> get keystore ''address'' = Inr (JString a) \<and> length a = 34
      \<and> get keystore ''crypto'' = Inr crypto
      \<and> get crypto ''ciphertext'' = Inr (JString ct)
      \<and> get crypto ''cipherparams'' = Inr cipherparams
      \<and> get cipherparams ''iv'' = Inr (JString iv)
      \<and> get crypto ''cipher'' = Inr (JString ci)
      \<and> get crypto ''kdf'' = Inr (JString ''pbkdf2'')
      \<and> get crypto ''kdfparams'' = Inr kdfparams
      \<and> get kdfparams ''dklen'' = Inr (JNumber d)
      \<and> get kdfparams ''salt'' = Inr (JString sa)
      \<and> get kdfparams ''c'' = Inr (JNumber c)
      \<and> get kdfparams ''prf'' = Inr (JString f) \<and> f \<noteq> ''hmac-sha256''
      \<and> get crypto ''mac'' = Inr (JString m)
    \<longrightarrow> extractKeystore JSON_parse (JString s) = Inr keystore
        \<and> getPrivateKey L keystore password =
            ([], Inl DECRYPT_KEYSTORE_UNSUPPORTED_PBKDF2_PARAMETERS))
   \<and> extractKeystore JSON_parse input \<noteq> Inl DECRYPT_KEYSTORE_UNSUPPORTED_PBKDF2_PARAMETERS
   \<and> (extractKeystore JSON_parse input = Inr keystore'
        \<and> get_path keystore' [''crypto'', ''kdf''] = Inr (JString ''pbkdf2'')
        \<and> get_path keystore' [''crypto'', ''kdfparams'', ''prf''] \<noteq> Inr (JString ''hmac-sha256'')
      \<longrightarrow> getPrivateKey L keystore' password =
            ([], Inl DECRYPT_KEYSTORE_UNSUPPORTED_PBKDF2_PARAMETERS))"
proof (intro conjI impI)
  assume h: "JSON_parse s = Some keystore
      \<and> get keystore ''version'' = Inr (JNumber 3)
      \<and> get keystore ''id'' = Inr (JString i)
      \<and> get keystore ''address'' = Inr (JString a) \<and> length a = 34
      \<and> get keystore ''crypto'' = Inr crypto
      \<and> get crypto ''ciphertext'' = Inr (JString ct)
      \<and> get crypto ''cipherparams'' = Inr cipherparams
      \<and> get cipherparams ''iv'' = Inr (JString iv)
      \<and> get crypto ''cipher'' = Inr (JString ci)
      \<and> get crypto ''kdf'' = Inr (JString ''pbkdf2'')
      \<and> get crypto ''kdfparams'' = Inr kdfparams
      \<and> get kdfparams ''dklen'' = Inr (JNumber d)
      \<and> get kdfparams ''salt'' = Inr (JString sa)
      \<and> get kdfparams ''c'' = Inr (JNumber c)
      \<and> get kdfparams ''prf'' = Inr (JString f) \<and> f \<noteq> ''hmac-sha256''
      \<and> get crypto ''mac'' = Inr (JString m)"
  then have "isKeystore keystore = Inr True"
    by (intro isKeystore_pbkdf2I [of keystore i a crypto ct cipherparams iv ci kdfparams d sa c f m])
      simp_all
  with h show "extractKeystore JSON_parse (JString s) = Inr keystore"
    by simp
  from h have "derivedKeyOf L keystore password =
      ([], Inl DECRYPT_KEYSTORE_UNSUPPORTED_PBKDF2_PARAMETERS)"
    by (simp add: derivedKeyOf_def)
  then show "getPrivateKey L keystore password =
      ([], Inl DECRYPT_KEYSTORE_UNSUPPORTED_PBKDF2_PARAMETERS)"
    by (simp add: getPrivateKey_def deciphered_def)
next
  show "extractKeystore JSON_parse input \<noteq> Inl DECRYPT_KEYSTORE_UNSUPPORTED_PBKDF2_PARAMETERS"
    using extractKeystore_Inl [of JSON_parse input] by auto
next
  assume h: "extractKeystore JSON_parse input = Inr keystore'
        \<and> get_path keystore' [''crypto'', ''kdf''] = Inr (JString ''pbkdf2'')
        \<and> get_path keystore' [''crypto'', ''kdfparams'', ''prf''] \<noteq> Inr (JString ''hmac-sha256'')"
  then have "isKeystore keystore' = Inr True"
    by (auto simp: extractKeystore_Inr)
  from isKeystore_crypto [OF this] obtain crypto' kdfparams' kdf
    where c: "get keystore' ''crypto'' = Inr crypto'"
      and p: "get crypto' ''kdfparams'' = Inr kdfparams'"
      and v: "isValidKDFParams kdf kdfparams' = Inr True"
    by blast
  from h c have k: "get crypto' ''kdf'' = Inr (JString ''pbkdf2'')"
    by simp
  from isValidKDFParams_reads [OF v] obtain v' where r: "get kdfparams' ''prf'' = Inr v'"
    by blast
  with h c p have "v' \<noteq> JString ''hmac-sha256''"
    by simp
  with c p k r have "derivedKeyOf L keystore' password =
      ([], Inl DECRYPT_KEYSTORE_UNSUPPORTED_PBKDF2_PARAMETERS)"
    by (simp add: derivedKeyOf_def)
  then show "getPrivateKey L keystore' password =
      ([], Inl DECRYPT_KEYSTORE_UNSUPPORTED_PBKDF2_PARAMETERS)"
    by (simp add: getPrivateKey_def deciphered_def)
qed

theorem unsupported_prf_fails_at_derivation_witness:
  "JSON_parse_sample text_sha512 = Some keystore_sha512
   \<and> get keystore_sha512 ''version'' = Inr (JNumber 3)
   \<and> get keystore_sha512 ''id'' = Inr (JString ''k3'')
   \<and> get keystore_sha512 ''address'' = Inr (JString ''A432100000000000000000000000000000'')
   \<and> length ''A432100000000000000000000000000000'' = 34
   \<and> get_path keystore_sha512 [''crypto'', ''kdf''] = Inr (JString ''pbkdf2'')
   \<and> get_path keystore_sha512 [''crypto'', ''kdfparams'', ''prf''] = Inr (JString ''hmac-sha512'')
   \<and> ''hmac-sha512'' \<noteq> ''hmac-sha256''
   \<and> extractKeystore JSON_parse_sample (JString text_sha512) = Inr keystore_sha512
   \<and> extractKeystore JSON_parse_sample (JString text_sha512) \<noteq>
        Inl DECRYPT_KEYSTORE_UNSUPPORTED_PBKDF2_PARAMETERS
   \<and> getPrivateKey toy_libs keystore_sha512 ''test123'' =
        ([], Inl DECRYPT_KEYSTORE_UNSUPPORTED_PBKDF2_PARAMETERS)"
proof -
  define kdfparams where "kdfparams =
    JObject [(''dklen'', JNumber 32), (''salt'', JString ''ab''),
             (''c'', JNumber 262144), (''prf'', JString ''hmac-sha512'')]"
  define cipherparams where "cipherparams = JObject [(''iv'', JString ''00'')]"
  define crypto where "crypto =
    JObject [(''ciphertext'', JString ''1234''), (''cipherparams'', cipherparams),
             (''cipher'', JString ''aes-128-ctr''), (''kdf'', JString ''pbkdf2''),
             (''kdfparams'', kdfparams), (''mac'', JString ''0707'')]"
  have p: "JSON_parse_sample text_sha512 = Some keystore_sha512"
    by (simp add: JSON_parse_sample_def sample_texts)
  have k: "get keystore_sha512 ''version'' = Inr (JNumber 3)"
    "get keystore_sha512 ''id'' = Inr (JString ''k3'')"
    "get keystore_sha512 ''address'' = Inr (JString ''A432100000000000000000000000000000'')"
    "length ''A432100000000000000000000000000000'' = 34"
    "get keystore_sha512 ''crypto'' = Inr crypto"
    by (simp_all add: keystore_sha512_def crypto_def cipherparams_def kdfparams_def)
  have c: "get crypto ''ciphertext'' = Inr (JString ''1234'')"
    "get crypto ''cipherparams'' = Inr cipherparams"
    "get cipherparams ''iv'' = Inr (JString ''00'')"
    "get crypto ''cipher'' = Inr (JString ''aes-128-ctr'')"
    "get crypto ''kdf'' = Inr (JString ''pbkdf2'')"
    "get crypto ''kdfparams'' = Inr kdfparams"
    "get crypto ''mac'' = Inr (JString ''0707'')"
    by (simp_all add: crypto_def cipherparams_def)
  have q: "get kdfparams ''dklen'' = Inr (JNumber 32)"
    "get kdfparams ''salt'' = Inr (JString ''ab'')"
    "get kdfparams ''c'' = Inr (JNumber 262144)"
    "get kdfparams ''prf'' = Inr (JString ''hmac-sha512'')"
    "''hmac-sha512'' \<noteq> ''hmac-sha256''"
    by (simp_all add: kdfparams_def)
  have g: "get_path keystore_sha512 [''crypto'', ''kdf''] = Inr (JString ''pbkdf2'')"
    "get_path keystore_sha512 [''crypto'', ''kdfparams'', ''prf''] = Inr (JString ''hmac-sha512'')"
    by (simp_all add: keystore_sha512_def)
  from p k c q
    unsupported_prf_fails_at_derivation [of JSON_parse_sample text_sha512 keystore_sha512
      "''k3''" "''A432100000000000000000000000000000''" crypto "''1234''" cipherparams "''00''"
      "''aes-128-ctr''" kdfparams 32 "''ab''" 262144 "''hmac-sha512''" "''0707''"
      toy_libs "''test123''" "JString text_sha512" keystore_sha512]
  have "extractKeystore JSON_parse_sample (JString text_sha512) = Inr keystore_sha512
    \<and> getPrivateKey toy_libs keystore_sha512 ''test123'' =
        ([], Inl DECRYPT_KEYSTORE_UNSUPPORTED_PBKDF2_PARAMETERS)
    \<and> extractKeystore JSON_parse_sample (JString text_sha512) \<noteq>
        Inl DECRYPT_KEYSTORE_UNSUPPORTED_PBKDF2_PARAMETERS"
    by blast
  with p k q g show ?thesis
    by simp
qed

text \<open>
  The claim C3 as stated fails: the document with \<^verbatim>\<open>kdf\<close> \<^verbatim>\<open>pbkdf2\<close> and
  \<^verbatim>\<open>prf\<close> \<^verbatim>\<open>hmac-sha512\<close> is returned by \<^verbatim>\<open>extractKeystore\<close>, not rejected.
\<close>

theorem sha512_keystore_is_accepted:
  "get_path keystore_sha512 [''crypto'', ''kdf''] = Inr (JString ''pbkdf2'')
   \<and> get_path keystore_sha512 [''crypto'', ''kdfparams'', ''prf''] = Inr (JString ''hmac-sha512'')
   \<and> JSON_parse_sample text_sha512 = Some keystore_sha512
   \<and> extractKeystore JSON_parse_sample (JString text_sha512) = Inr keystore_sha512"
proof -
  have "get_path keystore_sha512 [''crypto'', ''kdf''] = Inr (JString ''pbkdf2'')"
    and "get_path keystore_sha512 [''crypto'', ''kdfparams'', ''prf''] = Inr (JString ''hmac-sha512'')"
    by (simp_all add: keystore_sha512_def)
  moreover have "JSON_parse_sample text_sha512 = Some keystore_sha512"
    by (simp add: JSON_parse_sample_def sample_texts)
  ultimately show ?thesis
    using accepted_sha512 by simp
qed

subsection \<open>The schema check on null\<close>

text \<open>
  C4. The claim is that every document that is not a keystore fails with
  \<^verbatim>\<open>EXTRACT_KEYSTORE_INVALID_FORMAT\<close> (InvalidFormat). The source tests
  \<^verbatim>\<open>typeof keystore === 'object'\<close> and \<^verbatim>\<open>typeof keystore.crypto === 'object'\<close>, which
  \<^verbatim>\<open>null\<close> passes, and reads a property of it next: on the text \<^verbatim>\<open>null\<close>, and on a
  document whose \<^verbatim>\<open>crypto\<close> is \<^verbatim>\<open>null\<close>, a \<^verbatim>\<open>TypeError\<close> leaves the function.
\<close>

theorem null_document_throws_TypeError:
  "JSON_parse_sample ''null'' = Some JNull
   \<and> extractKeystore JSON_parse_sample (JString ''null'') = Inl TypeError
   \<and> JSON_parse_sample text_crypto_null = Some keystore_crypto_null
   \<and> extractKeystore JSON_parse_sample (JString text_crypto_null) = Inl TypeError"
  by (simp add: JSON_parse_sample_def sample_texts keystore_crypto_null_def schema_defs)

subsection \<open>The run after the decipher\<close>

lemma length_toHex: "length (toHex buf) = 2 * length buf"
  by (induction buf) simp_all

lemma prependKey_long: "32 \<le> length buf \<Longrightarrow> prependKey buf = buf"
  by (subst prependKey.simps) simp

lemma fst_then_run_Inl: "snd m = Inl e \<Longrightarrow> then_run m f = m"
  by (cases m) simp

lemma derivedKeyOf_Inr_crypto:
  assumes "derivedKeyOf L keystore password = (t, Inr derivedKey)"
  shows "\<exists>crypto. get keystore ''crypto'' = Inr crypto"
  using assms
  by (cases "get keystore ''crypto''") (simp_all add: derivedKeyOf_def)

lemma deciphered_Inr_address:
  assumes "deciphered L keystore password = (t, Inr plaintext)"
  shows "\<exists>a. get keystore ''address'' = Inr a"
proof -
  from assms have "snd (deciphered L keystore password) = Inr plaintext"
    by simp
  then obtain derivedKey where "snd (derivedKeyOf L keystore password) = Inr derivedKey"
    by (auto simp: deciphered_def then_run_snd_Inr)
  then have "derivedKeyOf L keystore password = (fst (derivedKeyOf L keystore password), Inr derivedKey)"
    by (metis prod.collapse)
  from derivedKeyOf_Inr_crypto [OF this] obtain crypto where "get keystore ''crypto'' = Inr crypto"
    by blast
  then show ?thesis
    by (rule get_total)
qed

lemma getPrivateKey_after_deciphered:
  assumes "deciphered L keystore password = (t, Inr plaintext)"
    and "privateKeyToAddress L (toHex (prependKey plaintext)) = Some address"
    and "get keystore ''address'' = Inr stored"
  shows "getPrivateKey L keystore password =
     (t @ [PrivateKeyToAddress],
      if JString address \<noteq> stored then Inl DECRYPT_KEYSTORE_WRONG_ADDRESS
      else Inr (toHex (prependKey plaintext)))"
  using assms by (simp add: getPrivateKey_def Let_def)

lemma getPrivateKey_Inr:
  assumes "snd (getPrivateKey L keystore password) = Inr privateKey"
  shows "\<exists>plaintext address. snd (deciphered L keystore password) = Inr plaintext
      \<and> privateKey = toHex (prependKey plaintext)
      \<and> privateKeyToAddress L privateKey = Some address
      \<and> get keystore ''address'' = Inr (JString address)"
  using assms
  by (auto simp: getPrivateKey_def then_run_snd_Inr Let_def and_then_eq_Inr
      split: option.splits if_splits)

subsection \<open>The address check\<close>

text \<open>
  C2. \<^verbatim>\<open>getPrivateKey\<close> returns a private key only if \<^verbatim>\<open>privateKeyToAddress\<close> maps
  that key to \<^verbatim>\<open>keystore.address\<close>; so the key returned for a keystore and its
  password has the address of the keystore. When the run reaches the address check and
  the two addresses differ, it fails with \<^verbatim>\<open>DECRYPT_KEYSTORE_WRONG_ADDRESS\<close>
  (WrongAddress), which is another error than \<^verbatim>\<open>DECRYPT_KEYSTORE_WRONG_PASSPHRASE\<close>
  (WrongPassphrase).
\<close>

theorem returned_key_has_keystore_address:
  "(snd (getPrivateKey L keystore password) = Inr privateKey \<longrightarrow>
      (\<exists>address. privateKeyToAddress L privateKey = Some address
         \<and> get keystore ''address'' = Inr (JString address)))
   \<and> (deciphered L keystore password = (t, Inr plaintext)
        \<and> privateKeyToAddress L (toHex (prependKey plaintext)) = Some address'
        \<and> get keystore ''address'' \<noteq> Inr (JString address')
      \<longrightarrow> getPrivateKey L keystore password =
            (t @ [PrivateKeyToAddress], Inl DECRYPT_KEYSTORE_WRONG_ADDRESS))
   \<and> DECRYPT_KEYSTORE_WRONG_ADDRESS \<noteq> DECRYPT_KEYSTORE_WRONG_PASSPHRASE"
proof (intro conjI impI)
  assume "snd (getPrivateKey L keystore password) = Inr privateKey"
  from getPrivateKey_Inr [OF this]
  show "\<exists>address. privateKeyToAddress L privateKey = Some address
         \<and> get keystore ''address'' = Inr (JString address)"
    by blast
next
  assume h: "deciphered L keystore password = (t, Inr plaintext)
        \<and> privateKeyToAddress L (toHex (prependKey plaintext)) = Some address'
        \<and> get keystore ''address'' \<noteq> Inr (JString address')"
  then obtain stored where s: "get keystore ''address'' = Inr stored"
    using deciphered_Inr_address by blast
  with h have "JString address' \<noteq> stored"
    by auto
  with h s getPrivateKey_after_deciphered [of L keystore password t plaintext address' stored]
  show "getPrivateKey L keystore password =
            (t @ [PrivateKeyToAddress], Inl DECRYPT_KEYSTORE_WRONG_ADDRESS)"
    by simp
next
  show "DECRYPT_KEYSTORE_WRONG_ADDRESS \<noteq> DECRYPT_KEYSTORE_WRONG_PASSPHRASE"
    by simp
qed

lemma deciphered_scrypt:
  "deciphered toy_libs keystore_scrypt ''test123'' =
     ([Scrypt, Sha3_256, CreateDecipheriv], Inr [0x12, 0x34])"
  by code_simp

lemma deciphered_other_address:
  "deciphered toy_libs keystore_other_address ''test123'' =
     ([Scrypt, Sha3_256, CreateDecipheriv], Inr [0x12, 0x34])"
  by code_simp

theorem returned_key_has_keystore_address_witness:
  "snd (getPrivateKey toy_libs keystore_scrypt ''test123'') =
      Inr ''0000000000000000000000000000000000000000000000000000000000001234''
   \<and> privateKeyToAddress toy_libs
        ''0000000000000000000000000000000000000000000000000000000000001234'' =
      Some ''A432100000000000000000000000000000''
   \<and> get keystore_scrypt ''address'' = Inr (JString ''A432100000000000000000000000000000'')
   \<and> deciphered toy_libs keystore_other_address ''test123'' =
        ([Scrypt, Sha3_256, CreateDecipheriv], Inr [0x12, 0x34])
   \<and> privateKeyToAddress toy_libs (toHex (prependKey [0x12, 0x34])) =
        Some ''A432100000000000000000000000000000''
   \<and> get keystore_other_address ''address'' \<noteq> Inr (JString ''A432100000000000000000000000000000'')
   \<and> getPrivateKey toy_libs keystore_other_address ''test123'' =
        ([Scrypt, Sha3_256, CreateDecipheriv, PrivateKeyToAddress],
         Inl DECRYPT_KEYSTORE_WRONG_ADDRESS)"
proof -
  have a: "snd (getPrivateKey toy_libs keystore_scrypt ''test123'') =
      Inr ''0000000000000000000000000000000000000000000000000000000000001234''"
    by code_simp
  have b: "privateKeyToAddress toy_libs (toHex (prependKey [0x12, 0x34])) =
        Some ''A432100000000000000000000000000000''"
    by code_simp
  have c: "get keystore_other_address ''address'' \<noteq> Inr (JString ''A432100000000000000000000000000000'')"
    by code_simp
  have d: "get keystore_scrypt ''address'' = Inr (JString ''A432100000000000000000000000000000'')"
    by code_simp
  have e: "privateKeyToAddress toy_libs
        ''0000000000000000000000000000000000000000000000000000000000001234'' =
      Some ''A432100000000000000000000000000000''"
    by code_simp
  from a b c deciphered_other_address
    returned_key_has_keystore_address [of toy_libs keystore_other_address "''test123''"
      "''''" "[Scrypt, Sha3_256, CreateDecipheriv]" "[0x12, 0x34]"
      "''A432100000000000000000000000000000''"]
  have "getPrivateKey toy_libs keystore_other_address ''test123'' =
        ([Scrypt, Sha3_256, CreateDecipheriv] @ [PrivateKeyToAddress],
         Inl DECRYPT_KEYSTORE_WRONG_ADDRESS)"
    by blast
  with a b c d e deciphered_other_address show ?thesis
    by simp
qed

subsection \<open>A plaintext longer than 32 bytes\<close>

text \<open>
  C10, as amended. \<^verbatim>\<open>prependKey\<close> returns a buffer of 32 bytes or more unchanged.
  So when the deciphered plaintext is longer than 32 bytes, the private key is the
  whole plaintext in hexadecimal, longer than 64 characters and never trimmed, and
  the run goes on to the address check with it: the key is returned when
  \<^verbatim>\<open>privateKeyToAddress\<close> maps it to \<^verbatim>\<open>keystore.address\<close>, the run fails with
  \<^verbatim>\<open>DECRYPT_KEYSTORE_WRONG_ADDRESS\<close> when it maps it to another address, and with the
  error of \<^verbatim>\<open>privateKeyToAddress\<close> when that throws. The length is tested nowhere.
\<close>

theorem long_plaintext_is_not_trimmed:
  "(32 \<le> length buf \<longrightarrow> prependKey buf = buf)
   \<and> (deciphered L keystore password = (t, Inr plaintext) \<and> 32 < length plaintext \<longrightarrow>
        64 < length (toHex plaintext)
        \<and> getPrivateKey L keystore password =
            (t @ [PrivateKeyToAddress],
             case privateKeyToAddress L (toHex plaintext) of
               None \<Rightarrow> Inl ExternalError
             | Some address \<Rightarrow>
                 if get keystore ''address'' = Inr (JString address)
                 then Inr (toHex plaintext)
                 else Inl DECRYPT_KEYSTORE_WRONG_ADDRESS))"
proof (intro conjI impI)
  assume "32 \<le> length buf"
  then show "prependKey buf = buf"
    by (rule prependKey_long)
next
  assume h: "deciphered L keystore password = (t, Inr plaintext) \<and> 32 < length plaintext"
  then show "64 < length (toHex plaintext)"
    by (simp add: length_toHex)
  from h have p: "prependKey plaintext = plaintext"
    by (simp add: prependKey_long)
  from h obtain stored where s: "get keystore ''address'' = Inr stored"
    using deciphered_Inr_address by blast
  show "getPrivateKey L keystore password =
            (t @ [PrivateKeyToAddress],
             case privateKeyToAddress L (toHex plaintext) of
               None \<Rightarrow> Inl ExternalError
             | Some address \<Rightarrow>
                 if get keystore ''address'' = Inr (JString address)
                 then Inr (toHex plaintext)
                 else Inl DECRYPT_KEYSTORE_WRONG_ADDRESS)"
  proof (cases "privateKeyToAddress L (toHex plaintext)")
    case None
    with h p show ?thesis
      by (simp add: getPrivateKey_def Let_def)
  next
    case (Some address)
    with h p s getPrivateKey_after_deciphered [of L keystore password t plaintext address stored]
    show ?thesis
      by auto
  qed
qed

lemma deciphered_pbkdf2:
  "deciphered toy_libs keystore_pbkdf2 ''test123'' =
     ([Pbkdf2, Sha3_256, CreateDecipheriv], Inr (replicate 33 0x11))"
  by code_simp

theorem long_plaintext_is_not_trimmed_witness:
  "32 \<le> length (replicate 33 (0x11 :: 8 word))
   \<and> prependKey (replicate 33 0x11) = replicate 33 0x11
   \<and> deciphered toy_libs keystore_pbkdf2 ''test123'' =
        ([Pbkdf2, Sha3_256, CreateDecipheriv], Inr (replicate 33 0x11))
   \<and> 32 < length (replicate 33 (0x11 :: 8 word))
   \<and> privateKeyToAddress toy_libs (toHex (replicate 33 0x11)) =
        Some ''A111111111111111111111111111111111''
   \<and> get keystore_pbkdf2 ''address'' = Inr (JString ''A111111111111111111111111111111111'')
   \<and> getPrivateKey toy_libs keystore_pbkdf2 ''test123'' =
        ([Pbkdf2, Sha3_256, CreateDecipheriv, PrivateKeyToAddress],
         Inr (toHex (replicate 33 0x11)))
   \<and> length (toHex (replicate 33 (0x11 :: 8 word))) = 66"
proof -
  have a: "32 \<le> length (replicate 33 (0x11 :: 8 word))"
    and b: "32 < length (replicate 33 (0x11 :: 8 word))"
    by simp_all
  have c: "privateKeyToAddress toy_libs (toHex (replicate 33 0x11)) =
        Some ''A111111111111111111111111111111111''"
    by code_simp
  have d: "get keystore_pbkdf2 ''address'' = Inr (JString ''A111111111111111111111111111111111'')"
    by code_simp
  have e: "length (toHex (replicate 33 (0x11 :: 8 word))) = 66"
    by (simp add: length_toHex)
  from a b deciphered_pbkdf2
    long_plaintext_is_not_trimmed [of "replicate 33 0x11" toy_libs keystore_pbkdf2 "''test123''"
      "[Pbkdf2, Sha3_256, CreateDecipheriv]" "replicate 33 0x11"]
  have "prependKey (replicate 33 0x11) = replicate 33 (0x11 :: 8 word)
    \<and> getPrivateKey toy_libs keystore_pbkdf2 ''test123'' =
        ([Pbkdf2, Sha3_256, CreateDecipheriv] @ [PrivateKeyToAddress],
         case privateKeyToAddress toy_libs (toHex (replicate 33 0x11)) of
           None \<Rightarrow> Inl ExternalError
         | Some address \<Rightarrow>
             if get keystore_pbkdf2 ''address'' = Inr (JString address)
             then Inr (toHex (replicate 33 0x11))
             else Inl DECRYPT_KEYSTORE_WRONG_ADDRESS)"
    by blast
  with a b c d e deciphered_pbkdf2 show ?thesis
    by simp
qed

text \<open>
  The claim C10 as stated fails: a plaintext of 33 bytes does not make
  \<^verbatim>\<open>getPrivateKey\<close> return. Where \<^verbatim>\<open>privateKeyToAddress\<close> throws on a key that is
  not 64 characters long the run ends with that error, and where the key has another
  address than the keystore it ends with \<^verbatim>\<open>DECRYPT_KEYSTORE_WRONG_ADDRESS\<close>.
\<close>

theorem long_plaintext_can_fail:
  "deciphered toy_libs_strict keystore_pbkdf2 ''test123'' =
     ([Pbkdf2, Sha3_256, CreateDecipheriv], Inr (replicate 33 0x11))
   \<and> 32 < length (replicate 33 (0x11 :: 8 word))
   \<and> getPrivateKey toy_libs_strict keystore_pbkdf2 ''test123'' =
        ([Pbkdf2, Sha3_256, CreateDecipheriv, PrivateKeyToAddress], Inl ExternalError)
   \<and> deciphered toy_libs keystore_pbkdf2_other_address ''test123'' =
        ([Pbkdf2, Sha3_256, CreateDecipheriv], Inr (replicate 33 0x11))
   \<and> getPrivateKey toy_libs keystore_pbkdf2_other_address ''test123'' =
        ([Pbkdf2, Sha3_256, CreateDecipheriv, PrivateKeyToAddress],
         Inl DECRYPT_KEYSTORE_WRONG_ADDRESS)"
proof -
  have "deciphered toy_libs_strict keystore_pbkdf2 ''test123'' =
     ([Pbkdf2, Sha3_256, CreateDecipheriv], Inr (replicate 33 0x11))"
    by code_simp
  moreover have "getPrivateKey toy_libs_strict keystore_pbkdf2 ''test123'' =
        ([Pbkdf2, Sha3_256, CreateDecipheriv, PrivateKeyToAddress], Inl ExternalError)"
    by code_simp
  moreover have "deciphered toy_libs keystore_pbkdf2_other_address ''test123'' =
        ([Pbkdf2, Sha3_256, CreateDecipheriv], Inr (replicate 33 0x11))"
    by code_simp
  moreover have "getPrivateKey toy_libs keystore_pbkdf2_other_address ''test123'' =
        ([Pbkdf2, Sha3_256, CreateDecipheriv, PrivateKeyToAddress],
         Inl DECRYPT_KEYSTORE_WRONG_ADDRESS)"
    by code_simp
  ultimately show ?thesis
    by simp
qed

subsection \<open>The integrity check\<close>







end
